theory Spec2Isabelle
  imports Main "HOL-Library.Char_ord" "HOL-Library.List_Lexorder"
begin

section \<open>Progress snapshots, results and effects\<close>

text \<open>
  The two wrappers \<^verbatim>\<open>rpa_wrapper.py\<close> and \<^verbatim>\<open>decompile_wrapper.py\<close> drive three batch
  operations and one query. Everything they do beyond returning a dictionary is an effect
  on the outside world: a snapshot handed to the progress file, an entry read from the
  archive, a file created on disk, a file written, an entry added to a new archive, the
  archive saved, the decompiler run on a file. The model returns, next to the result, the list of these
  effects in program order.

  An exception is a value: \<open>exn\<close> is the text \<^verbatim>\<open>str(e)\<close> of a raised \<^verbatim>\<open>Exception\<close>, and a call
  that may raise returns \<open>exn + 'a\<close> with \<open>Inl\<close> for the raise.

  The two time stamps of a snapshot (\<^verbatim>\<open>startTime\<close>, \<^verbatim>\<open>lastUpdateTime\<close>) are readings of the
  wall clock and are left out of the record; no other field depends on them.
\<close>

type_synonym exn = string

datatype operation = Extract | Create | Decompile

datatype status = In_progress | Completed | Failed

record snapshot =
  operation :: operation
  totalFiles :: nat
  processedFiles :: nat
  currentFile :: string
  status :: status
  errorMessage :: string

datatype effect =
    Emit snapshot bool
  | Archive_read string
  | File_create string
  | File_write string
  | Archive_add string
  | Archive_save string
  | Run_decompiler string

record base_result =
  success :: bool
  message :: string

record files_result = base_result +
  files :: "string list"


record stats =
  st_total :: nat
  st_success :: nat
  st_skipped :: nat
  st_failed :: nat

record decompile_result = base_result +
  stats :: stats

subsection \<open>Python helpers\<close>

text \<open>\<^verbatim>\<open>if progress_file:\<close> holds for a string that is neither \<^verbatim>\<open>None\<close> nor empty.\<close>

definition truthy :: "string option \<Rightarrow> bool" where
  "truthy progress_file = (case progress_file of None \<Rightarrow> False | Some p \<Rightarrow> p \<noteq> [])"

text \<open>\<^verbatim>\<open>'{}'.format(n)\<close> for a non-negative integer: its decimal digits.\<close>

definition digit :: "nat \<Rightarrow> char" where
  "digit d = char_of (48 + d)"

function str_nat :: "nat \<Rightarrow> string" where
  "str_nat n = (if n < 10 then [digit n] else str_nat (n div 10) @ [digit (n mod 10)])"
  by pat_completeness auto
termination
  by (relation "measure (\<lambda>n. n)") auto

declare str_nat.simps [simp del]

text \<open>\<^verbatim>\<open>os.path.join(a, b)\<close> for two components, with \<^verbatim>\<open>/\<close> as the separator.\<close>

definition path_join :: "string \<Rightarrow> string \<Rightarrow> string" where
  "path_join a b =
     (if b \<noteq> [] \<and> hd b = CHR ''/'' then b
      else if a = [] \<or> last a = CHR ''/'' then a @ b
      else a @ ''/'' @ b)"

subsection \<open>The progress reporter\<close>

text \<open>
  \<^verbatim>\<open>_write_progress\<close>: nothing happens without a progress file; otherwise the snapshot is
  written, and a failing write is swallowed. \<open>wr data\<close> says whether the write of \<open>data\<close>
  goes through; the effect \<open>Emit data ok\<close> records the attempt and its outcome.
\<close>

definition write_progress ::
  "(snapshot \<Rightarrow> bool) \<Rightarrow> string option \<Rightarrow> snapshot \<Rightarrow> effect list" where
  "write_progress wr progress_file data =
     (if \<not> truthy progress_file then [] else [Emit data (wr data)])"

text \<open>The guarded call \<^verbatim>\<open>if progress_file: _write_progress(progress_file, {...})\<close>.\<close>

definition report ::
  "(snapshot \<Rightarrow> bool) \<Rightarrow> string option \<Rightarrow> snapshot \<Rightarrow> effect list" where
  "report wr progress_file data =
     (if truthy progress_file then write_progress wr progress_file data else [])"

text \<open>The snapshots handed to the reporter, in order, and the terminal ones among them.\<close>

fun snapshots :: "effect list \<Rightarrow> snapshot list" where
  "snapshots [] = []"
| "snapshots (Emit s ok # es) = s # snapshots es"
| "snapshots (e # es) = snapshots es"

definition terminal :: "snapshot \<Rightarrow> bool" where
  "terminal s = (status s = Completed \<or> status s = Failed)"

section \<open>Extractor\<close>

text \<open>
  The archive codec is outside the wrappers. An opened archive is its listing, each entry
  paired with what happens when lines 67 to 77 run on it, and its version string.
\<close>

datatype entry_io =
  Read_fails exn | Mkdir_fails exn | Create_fails exn | Write_fails exn | Entry_ok

record archive =
  entries :: "(string \<times> entry_io) list"
  archive_version :: string

text \<open>
  The surroundings of \<^verbatim>\<open>extract_rpa\<close> and \<^verbatim>\<open>list_rpa_files\<close>: \<open>codec_open p\<close> is the outcome
  of \<^verbatim>\<open>RenPyArchive(p)\<close> followed by \<^verbatim>\<open>archive.list()\<close>; \<open>prepare_dir d\<close> is the outcome of
  lines 60 and 61 (\<open>None\<close>: the directory exists or was created, \<open>Some e\<close>: \<^verbatim>\<open>os.makedirs\<close>
  raised).
\<close>

record extract_env =
  codec_open :: "string \<Rightarrow> exn + archive"
  prepare_dir :: "string \<Rightarrow> exn option"

text \<open>
  Lines 67 to 77: read the entry, create its directory, open the destination, write the
  contents. \<^verbatim>\<open>open(output_path, 'wb')\<close> at line 76 creates the destination or empties it
  (\<open>File_create\<close>) before \<^verbatim>\<open>f.write\<close> at line 77 runs; \<open>File_write\<close> stands for contents
  written and a file closed. When the write or the closing raises (\<open>Write_fails\<close>), the
  destination stays behind: nothing removes it. \<open>Create_fails\<close> is an \<^verbatim>\<open>open\<close> that raises and
  leaves the disk as it was.
\<close>

definition extract_entry :: "string \<Rightarrow> string \<Rightarrow> entry_io \<Rightarrow> (exn + unit) \<times> effect list" where
  "extract_entry output_dir filename io =
     (case io of
        Read_fails e \<Rightarrow> (Inl e, [Archive_read filename])
      | Mkdir_fails e \<Rightarrow> (Inl e, [Archive_read filename])
      | Create_fails e \<Rightarrow> (Inl e, [Archive_read filename])
      | Write_fails e \<Rightarrow>
          (Inl e, [Archive_read filename, File_create (path_join output_dir filename)])
      | Entry_ok \<Rightarrow>
          (Inr (), [Archive_read filename, File_create (path_join output_dir filename),
                    File_write (path_join output_dir filename)]))"

text \<open>
  The loop of lines 65 to 112. \<open>Inl r\<close> is the early \<^verbatim>\<open>return\<close> of the handler at line 108,
  \<open>Inr extracted\<close> the list once the loop has run through.
\<close>

fun extract_loop ::
  "(snapshot \<Rightarrow> bool) \<Rightarrow> string option \<Rightarrow> string \<Rightarrow> nat \<Rightarrow> nat \<Rightarrow> (string \<times> entry_io) list \<Rightarrow>
   string list \<Rightarrow> (files_result + string list) \<times> effect list" where
  "extract_loop wr progress_file output_dir total_files idx [] extracted_files =
     (Inr extracted_files, [])"
| "extract_loop wr progress_file output_dir total_files idx ((filename, io) # rest) extracted_files =
     (case extract_entry output_dir filename io of
        (Inr u, effs) \<Rightarrow>
          (let extracted_files' = extracted_files @ [filename];
               prog = (if truthy progress_file \<and> (idx mod 5 = 0 \<or> int idx = int total_files - 1)
                       then write_progress wr progress_file
                              \<lparr>operation = Extract, totalFiles = total_files,
                               processedFiles = idx + 1, currentFile = filename,
                               status = In_progress, errorMessage = ''''\<rparr>
                       else []);
               (r, later) = extract_loop wr progress_file output_dir total_files (Suc idx) rest
                              extracted_files'
           in (r, effs @ prog @ later))
      | (Inl e, effs) \<Rightarrow>
          (let error_msg = ''Error extracting '' @ filename @ '': '' @ e
           in (Inl \<lparr>success = False, message = error_msg, files = extracted_files\<rparr>,
               effs @ report wr progress_file
                        \<lparr>operation = Extract, totalFiles = total_files,
                         processedFiles = idx, currentFile = filename,
                         status = Failed, errorMessage = error_msg\<rparr>)))"

text \<open>
  The body of the outer \<^verbatim>\<open>try\<close> (lines 39 to 131). \<open>Inl e\<close> is an exception on its way to
  the handler at line 133.
\<close>

definition extract_body ::
  "(snapshot \<Rightarrow> bool) \<Rightarrow> extract_env \<Rightarrow> string \<Rightarrow> string \<Rightarrow> string option \<Rightarrow>
   (exn + files_result) \<times> effect list" where
  "extract_body wr env rpa_file_path output_dir progress_file =
     (case codec_open env rpa_file_path of
        Inl e \<Rightarrow> (Inl e, [])
      | Inr ar \<Rightarrow>
          (let total_files = length (entries ar);
               init = report wr progress_file
                        \<lparr>operation = Extract, totalFiles = total_files, processedFiles = 0,
                         currentFile = ''Loading archive...'', status = In_progress,
                         errorMessage = ''''\<rparr>
           in case prepare_dir env output_dir of
                Some e \<Rightarrow> (Inl e, init)
              | None \<Rightarrow>
                  (case extract_loop wr progress_file output_dir total_files 0 (entries ar) [] of
                     (Inl r, effs) \<Rightarrow> (Inr r, init @ effs)
                   | (Inr extracted_files, effs) \<Rightarrow>
                       (Inr \<lparr>success = True,
                             message = ''Successfully extracted '' @ str_nat (length extracted_files)
                                       @ '' files'',
                             files = extracted_files\<rparr>,
                        init @ effs @ report wr progress_file
                          \<lparr>operation = Extract, totalFiles = total_files,
                           processedFiles = total_files, currentFile = ''Complete'',
                           status = Completed, errorMessage = ''''\<rparr>))))"

definition extract_rpa ::
  "(snapshot \<Rightarrow> bool) \<Rightarrow> extract_env \<Rightarrow> string \<Rightarrow> string \<Rightarrow> string option \<Rightarrow>
   files_result \<times> effect list" where
  "extract_rpa wr env rpa_file_path output_dir progress_file =
     (case extract_body wr env rpa_file_path output_dir progress_file of
        (Inr r, effs) \<Rightarrow> (r, effs)
      | (Inl e, effs) \<Rightarrow>
          (let error_msg = ''Error: '' @ e
           in (\<lparr>success = False, message = error_msg, files = []\<rparr>,
               effs @ report wr progress_file
                        \<lparr>operation = Extract, totalFiles = 0, processedFiles = 0,
                         currentFile = '''', status = Failed, errorMessage = error_msg\<rparr>)))"


section \<open>Directory trees\<close>

text \<open>
  What \<^verbatim>\<open>os.walk\<close>, \<^verbatim>\<open>os.listdir\<close> and \<^verbatim>\<open>os.path.isdir\<close> see at one moment: a tree of files
  and directories. A file carries what happens when the operation processes it; a directory
  is its listing, in the order the system returns it, or the error its listing raises.
  \<open>Link items\<close> is a symbolic link to a directory with the listing \<open>items\<close>:
  \<^verbatim>\<open>os.path.isdir\<close> and \<^verbatim>\<open>os.listdir\<close> follow it, \<^verbatim>\<open>os.walk\<close> names it among the directories
  but does not descend into it (\<^verbatim>\<open>followlinks\<close> is off). A symbolic link to a file is a
  \<open>File\<close>; a link to a directory that cannot be listed is a \<open>Dir_unreadable\<close>.
\<close>

datatype 'a fs_node =
    File 'a
  | Dir "(string \<times> 'a fs_node) list"
  | Dir_unreadable exn
  | Link "(string \<times> 'a fs_node) list"

fun dir_files :: "(string \<times> 'a fs_node) list \<Rightarrow> (string \<times> 'a) list" where
  "dir_files [] = []"
| "dir_files ((name, File x) # items) = (name, x) # dir_files items"
| "dir_files ((name, node) # items) = dir_files items"

text \<open>
  \<^verbatim>\<open>os.walk(top)\<close>, top down, restricted to the \<^verbatim>\<open>root\<close> and \<^verbatim>\<open>files\<close> components that the
  wrappers use. A directory that cannot be listed yields nothing (\<^verbatim>\<open>onerror\<close> is unset), and
  so does a top that is a regular file. A top that is a link to a directory is listed; a
  link met below the top is not walked.
\<close>

fun os_walk :: "string \<Rightarrow> 'a fs_node \<Rightarrow> (string \<times> (string \<times> 'a) list) list"
  and walk_dirs :: "string \<Rightarrow> (string \<times> 'a fs_node) list \<Rightarrow> (string \<times> (string \<times> 'a) list) list" where
  "os_walk root (File x) = []"
| "os_walk root (Dir_unreadable e) = []"
| "os_walk root (Dir items) = (root, dir_files items) # walk_dirs root items"
| "os_walk root (Link items) = (root, dir_files items) # walk_dirs root items"
| "walk_dirs root [] = []"
| "walk_dirs root ((name, File x) # items) = walk_dirs root items"
| "walk_dirs root ((name, Link linked) # items) = walk_dirs root items"
| "walk_dirs root ((name, node) # items) = os_walk (path_join root name) node @ walk_dirs root items"

text \<open>\<^verbatim>\<open>os.walk\<close> of a path: nothing when the path does not exist.\<close>

definition walk_path :: "(string \<Rightarrow> 'a fs_node option) \<Rightarrow> string \<Rightarrow> (string \<times> (string \<times> 'a) list) list" where
  "walk_path tree root = (case tree root of None \<Rightarrow> [] | Some node \<Rightarrow> os_walk root node)"

section \<open>Archiver\<close>

text \<open>
  What lines 225 to 227 do on a file: \<^verbatim>\<open>open\<close> or \<^verbatim>\<open>read\<close> raises, \<^verbatim>\<open>archive.add\<close> raises,
  or the entry is added.
\<close>

datatype file_io = Open_fails exn | Add_fails exn | Added

text \<open>
  The surroundings of \<^verbatim>\<open>create_rpa\<close>. \<open>source_tree\<close> is the file system as \<^verbatim>\<open>os.walk\<close> finds it
  when the files are counted (line 172). \<open>listed_tree\<close> is the file system as \<^verbatim>\<open>os.listdir\<close>,
  \<^verbatim>\<open>os.path.isdir\<close> and \<^verbatim>\<open>open\<close> find it during the walk of \<^verbatim>\<open>add_directory\<close> (lines 215 to
  227), where each directory is listed once. The two need not agree: the progress file is
  written at line 196, between the count and the walk, and again during the walk, so a
  progress file that lies under \<^verbatim>\<open>source_dir\<close> is listed when a write has created it, and
  other programs may change the directory. Hence \<open>listed_tree\<close> takes the outcomes of the
  progress writes (the function \<open>wr\<close> of the reporter) as an argument. \<open>codec_new\<close> and
  \<open>codec_save\<close> are the outcomes of \<^verbatim>\<open>RenPyArchive(version, key)\<close> and \<^verbatim>\<open>archive.save\<close>.
\<close>

record create_env =
  source_tree :: "string \<Rightarrow> file_io fs_node option"
  listed_tree :: "(snapshot \<Rightarrow> bool) \<Rightarrow> string \<Rightarrow> file_io fs_node option"
  codec_new :: "int \<Rightarrow> int \<Rightarrow> exn option"
  codec_save :: "string \<Rightarrow> exn option"

text \<open>The two variables that the nested function shares with \<^verbatim>\<open>create_rpa\<close>.\<close>

record walk_state =
  added_files :: "string list"
  file_index :: nat

definition add_file :: "file_io \<Rightarrow> exn option" where
  "add_file io = (case io of Open_fails e \<Rightarrow> Some e | Add_fails e \<Rightarrow> Some e | Added \<Rightarrow> None)"

text \<open>
  \<^verbatim>\<open>add_directory\<close> (lines 214 to 258); \<open>add_items\<close> is its \<^verbatim>\<open>for\<close> loop. \<open>Inl e\<close> is an
  exception leaving the function: the one raised at line 258, or the one \<^verbatim>\<open>os.listdir\<close>
  raises. With \<^verbatim>\<open>/\<close> as \<^verbatim>\<open>os.sep\<close> the \<^verbatim>\<open>replace\<close> of line 217 changes nothing. The effect
  \<open>Archive_add p\<close> stands for an \<^verbatim>\<open>archive.add\<close> that returned.
\<close>

fun add_directory ::
  "(snapshot \<Rightarrow> bool) \<Rightarrow> string option \<Rightarrow> nat \<Rightarrow> string \<Rightarrow> string \<Rightarrow> file_io fs_node \<Rightarrow>
   walk_state \<Rightarrow> (exn + unit) \<times> walk_state \<times> effect list"
  and add_items ::
  "(snapshot \<Rightarrow> bool) \<Rightarrow> string option \<Rightarrow> nat \<Rightarrow> string \<Rightarrow> string \<Rightarrow> (string \<times> file_io fs_node) list \<Rightarrow>
   walk_state \<Rightarrow> (exn + unit) \<times> walk_state \<times> effect list" where
  "add_directory wr progress_file total_files dir_path archive_prefix (Dir items) st =
     add_items wr progress_file total_files dir_path archive_prefix items st"
| "add_directory wr progress_file total_files dir_path archive_prefix (Link items) st =
     add_items wr progress_file total_files dir_path archive_prefix items st"
| "add_directory wr progress_file total_files dir_path archive_prefix (Dir_unreadable e) st =
     (Inl e, st, [])"
| "add_directory wr progress_file total_files dir_path archive_prefix (File x) st =
     (Inl (''Not a directory: '' @ dir_path), st, [])"
| "add_items wr progress_file total_files dir_path archive_prefix [] st = (Inr (), st, [])"
| "add_items wr progress_file total_files dir_path archive_prefix ((item, File io) # rest) st =
     (let item_path = path_join dir_path item;
          archive_path = path_join archive_prefix item
      in case add_file io of
           None \<Rightarrow>
             (let st1 = st\<lparr>added_files := added_files st @ [archive_path],
                          file_index := file_index st + 1\<rparr>;
                  prog = (if truthy progress_file \<and>
                             (file_index st1 mod 5 = 0 \<or> file_index st1 = total_files)
                          then write_progress wr progress_file
                                 \<lparr>operation = Create, totalFiles = total_files,
                                  processedFiles = file_index st1, currentFile = archive_path,
                                  status = In_progress, errorMessage = ''''\<rparr>
                          else []);
                  (r, st2, later) = add_items wr progress_file total_files dir_path archive_prefix
                                      rest st1
              in (r, st2, Archive_add archive_path # prog @ later))
         | Some e \<Rightarrow>
             (let error_msg = ''Error adding '' @ item_path @ '': '' @ e
              in (Inl error_msg, st,
                  report wr progress_file
                    \<lparr>operation = Create, totalFiles = total_files,
                     processedFiles = file_index st, currentFile = archive_path,
                     status = Failed, errorMessage = error_msg\<rparr>)))"
| "add_items wr progress_file total_files dir_path archive_prefix ((item, node) # rest) st =
     (let item_path = path_join dir_path item;
          archive_path = path_join archive_prefix item
      in case add_directory wr progress_file total_files item_path archive_path node st of
           (Inl e, st1, effs) \<Rightarrow> (Inl e, st1, effs)
         | (Inr u, st1, effs) \<Rightarrow>
             (let (r, st2, later) = add_items wr progress_file total_files dir_path archive_prefix
                                      rest st1
              in (r, st2, effs @ later)))"

text \<open>
  Lines 207 to 283. The middle component is \<^verbatim>\<open>file_index\<close> when the name is bound
  (\<^verbatim>\<open>'file_index' in locals()\<close>). The effect \<open>Archive_save p\<close> stands for the call of
  \<^verbatim>\<open>archive.save\<close>, whatever its outcome.
\<close>

definition create_steps ::
  "(snapshot \<Rightarrow> bool) \<Rightarrow> create_env \<Rightarrow> string \<Rightarrow> string \<Rightarrow> int \<Rightarrow> int \<Rightarrow> string option \<Rightarrow> nat \<Rightarrow>
   (exn + files_result) \<times> walk_state option \<times> effect list" where
  "create_steps wr env source_dir output_rpa_path ver key progress_file total_files =
     (case codec_new env ver key of
        Some e \<Rightarrow> (Inl e, None, [])
      | None \<Rightarrow>
          (let st0 = \<lparr>added_files = [], file_index = 0\<rparr>
           in case (case listed_tree env wr source_dir of
                      None \<Rightarrow> (Inl (''No such file or directory: '' @ source_dir), st0, [])
                    | Some node \<Rightarrow>
                        add_directory wr progress_file total_files source_dir '''' node st0) of
                (Inl e, st, effs) \<Rightarrow> (Inl e, Some st, effs)
              | (Inr u, st, effs) \<Rightarrow>
                  (case codec_save env output_rpa_path of
                     Some e \<Rightarrow> (Inl e, Some st, effs @ [Archive_save output_rpa_path])
                   | None \<Rightarrow>
                       (Inr \<lparr>success = True,
                             message = ''Successfully created archive with ''
                                       @ str_nat (length (added_files st)) @ '' files'',
                             files = added_files st\<rparr>,
                        Some st,
                        effs @ [Archive_save output_rpa_path]
                          @ report wr progress_file
                              \<lparr>operation = Create, totalFiles = total_files,
                               processedFiles = total_files, currentFile = ''Complete'',
                               status = Completed, errorMessage = ''''\<rparr>))))"

text \<open>Lines 171 to 173: the number of files that \<^verbatim>\<open>os.walk\<close> reports.\<close>

definition count_files :: "(string \<Rightarrow> 'a fs_node option) \<Rightarrow> string \<Rightarrow> nat" where
  "count_files tree source_dir = sum_list (map (\<lambda>(root, fs). length fs) (walk_path tree source_dir))"

definition create_rpa ::
  "(snapshot \<Rightarrow> bool) \<Rightarrow> create_env \<Rightarrow> string \<Rightarrow> string \<Rightarrow> int \<Rightarrow> int \<Rightarrow> string option \<Rightarrow>
   files_result \<times> effect list" where
  "create_rpa wr env source_dir output_rpa_path ver key progress_file =
     (let total_files = count_files (source_tree env) source_dir
      in if total_files = 0 then
           (let error_msg = ''No files found in source directory''
            in (\<lparr>success = False, message = error_msg, files = []\<rparr>,
                report wr progress_file
                  \<lparr>operation = Create, totalFiles = 0, processedFiles = 0, currentFile = '''',
                   status = Failed, errorMessage = error_msg\<rparr>))
         else
           (let init = report wr progress_file
                         \<lparr>operation = Create, totalFiles = total_files, processedFiles = 0,
                          currentFile = ''Initializing archive...'', status = In_progress,
                          errorMessage = ''''\<rparr>
            in case create_steps wr env source_dir output_rpa_path ver key progress_file
                      total_files of
                 (Inr r, st, effs) \<Rightarrow> (r, init @ effs)
               | (Inl e, st, effs) \<Rightarrow>
                   (let error_msg = ''Error: '' @ e
                    in (\<lparr>success = False, message = error_msg, files = []\<rparr>,
                        init @ effs @ report wr progress_file
                          \<lparr>operation = Create, totalFiles = total_files,
                           processedFiles = (case st of Some s \<Rightarrow> file_index s | None \<Rightarrow> 0),
                           currentFile = '''', status = Failed, errorMessage = error_msg\<rparr>))))"

section \<open>Decompile batch\<close>

text \<open>
  The argument \<^verbatim>\<open>source_dir\<close> as the checks of lines 44 and 63 tell it apart: \<^verbatim>\<open>None\<close>, a
  string, or another object, on which \<^verbatim>\<open>os.path.exists\<close> raises a \<^verbatim>\<open>TypeError\<close> with the
  given text.
\<close>

datatype py_path = PyNone | PyStr string | PyOther exn

text \<open>
  What \<^verbatim>\<open>decompile_rpyc\<close> does on a file: it returns and leaves \<^verbatim>\<open>context.state\<close> at the
  given string, or it raises. \<^verbatim>\<open>Context()\<close> itself does not raise.
\<close>

datatype decompile_outcome = Returns string | Raises exn

definition lower_char :: "char \<Rightarrow> char" where
  "lower_char c = (if CHR ''A'' \<le> c \<and> c \<le> CHR ''Z'' then char_of (of_char c + (32::nat)) else c)"

definition lower :: "string \<Rightarrow> string" where
  "lower s = map lower_char s"

definition endswith :: "string \<Rightarrow> string \<Rightarrow> bool" where
  "endswith s suf = (length suf \<le> length s \<and> drop (length s - length suf) s = suf)"

text \<open>\<^verbatim>\<open>Path(p).name\<close> for a path whose last component is a file name.\<close>

definition path_name :: "string \<Rightarrow> string" where
  "path_name p = rev (takeWhile (\<lambda>c. c \<noteq> CHR ''/'') (rev p))"

text \<open>Lines 83 to 88: the compiled scripts, in the order of the walk.\<close>

definition is_rpyc :: "string \<Rightarrow> bool" where
  "is_rpyc file = (let file_lower = lower file
                   in endswith file_lower ''.rpyc'' \<or> endswith file_lower ''.rpymc'')"

definition find_rpyc :: "(string \<Rightarrow> 'a fs_node option) \<Rightarrow> string \<Rightarrow> (string \<times> 'a) list" where
  "find_rpyc tree source_dir =
     concat (map (\<lambda>(root, fs). map (\<lambda>(file, x). (path_join root file, x))
                                   (filter (\<lambda>(file, x). is_rpyc file) fs))
                 (walk_path tree source_dir))"

text \<open>
  The loop of lines 127 to 168. The snapshot is written before the file is processed and
  carries \<open>idx\<close>; an exception of the decompiler is counted as a failure.
\<close>

fun decompile_loop ::
  "(snapshot \<Rightarrow> bool) \<Rightarrow> string option \<Rightarrow> nat \<Rightarrow> nat \<Rightarrow> (string \<times> decompile_outcome) list \<Rightarrow> stats \<Rightarrow>
   stats \<times> effect list" where
  "decompile_loop wr progress_file total_files idx [] st = (st, [])"
| "decompile_loop wr progress_file total_files idx ((rpyc_file, outcome) # rest) st =
     (let prog = (if truthy progress_file \<and> (idx mod 5 = 0 \<or> int idx = int total_files - 1)
                  then write_progress wr progress_file
                         \<lparr>operation = Decompile, totalFiles = total_files,
                          processedFiles = idx, currentFile = path_name rpyc_file,
                          status = In_progress, errorMessage = ''''\<rparr>
                  else []);
          st' = (case outcome of
                   Returns state \<Rightarrow>
                     (if state = ''ok'' then st\<lparr>st_success := st_success st + 1\<rparr>
                      else if state = ''skip'' then st\<lparr>st_skipped := st_skipped st + 1\<rparr>
                      else st\<lparr>st_failed := st_failed st + 1\<rparr>)
                 | Raises e \<Rightarrow> st\<lparr>st_failed := st_failed st + 1\<rparr>);
          (r, later) = decompile_loop wr progress_file total_files (Suc idx) rest st'
      in (r, prog @ Run_decompiler rpyc_file # later))"

definition zero_stats :: stats where
  "zero_stats = \<lparr>st_total = 0, st_success = 0, st_skipped = 0, st_failed = 0\<rparr>"

definition decompile_failure ::
  "(snapshot \<Rightarrow> bool) \<Rightarrow> string option \<Rightarrow> string \<Rightarrow> decompile_result \<times> effect list" where
  "decompile_failure wr progress_file error_msg =
     (\<lparr>success = False, message = error_msg, stats = zero_stats\<rparr>,
      report wr progress_file
        \<lparr>operation = Decompile, totalFiles = 0, processedFiles = 0, currentFile = '''',
         status = Failed, errorMessage = error_msg\<rparr>)"

text \<open>
  The body of the outer \<^verbatim>\<open>try\<close> (lines 43 to 196). \<open>Inl e\<close> is an exception on its way to
  the handler at line 198; it can only come from \<^verbatim>\<open>os.path.exists\<close>, before
  \<^verbatim>\<open>total_files\<close> is bound.
\<close>

definition decompile_body ::
  "(snapshot \<Rightarrow> bool) \<Rightarrow> (string \<Rightarrow> decompile_outcome fs_node option) \<Rightarrow> py_path \<Rightarrow> string option \<Rightarrow>
   (exn + decompile_result \<times> effect list)" where
  "decompile_body wr tree source_dir progress_file =
     (case source_dir of
        PyNone \<Rightarrow> Inr (decompile_failure wr progress_file ''Source directory is None or empty'')
      | PyOther e \<Rightarrow> Inl e
      | PyStr dir \<Rightarrow>
          if dir = [] then
            Inr (decompile_failure wr progress_file ''Source directory is None or empty'')
          else if tree dir = None then
            Inr (decompile_failure wr progress_file (''Source directory does not exist: '' @ dir))
          else
            (let rpyc_files = find_rpyc tree dir;
                 total_files = length rpyc_files
             in if total_files = 0 then
                  Inr (decompile_failure wr progress_file ''No .rpyc files found in directory'')
                else
                  (let init = report wr progress_file
                                \<lparr>operation = Decompile, totalFiles = total_files,
                                 processedFiles = 0, currentFile = ''Scanning files...'',
                                 status = In_progress, errorMessage = ''''\<rparr>;
                       (st, effs) = decompile_loop wr progress_file total_files 0 rpyc_files
                                      \<lparr>st_total = 0, st_success = 0, st_skipped = 0,
                                       st_failed = 0\<rparr>;
                       done = report wr progress_file
                                \<lparr>operation = Decompile, totalFiles = total_files,
                                 processedFiles = total_files, currentFile = ''Complete'',
                                 status = Completed, errorMessage = ''''\<rparr>;
                       st' = st\<lparr>st_total := total_files\<rparr>
                   in Inr (\<lparr>success = True,
                            message = ''Decompiled '' @ str_nat total_files @ '' files (''
                                      @ str_nat (st_success st') @ '' successful, ''
                                      @ str_nat (st_skipped st') @ '' skipped, ''
                                      @ str_nat (st_failed st') @ '' failed)'',
                            stats = st'\<rparr>,
                           init @ effs @ done))))"

definition decompile_directory ::
  "(snapshot \<Rightarrow> bool) \<Rightarrow> (string \<Rightarrow> decompile_outcome fs_node option) \<Rightarrow> py_path \<Rightarrow> string option \<Rightarrow>
   decompile_result \<times> effect list" where
  "decompile_directory wr tree source_dir progress_file =
     (case decompile_body wr tree source_dir progress_file of
        Inr r \<Rightarrow> r
      | Inl e \<Rightarrow>
          (let error_msg = ''Error: '' @ e
           in (\<lparr>success = False, message = error_msg, stats = zero_stats\<rparr>,
               report wr progress_file
                 \<lparr>operation = Decompile, totalFiles = 0, processedFiles = 0, currentFile = '''',
                  status = Failed, errorMessage = error_msg\<rparr>)))"

section \<open>Calls of the public functions\<close>














section \<open>Observations on a run\<close>

text \<open>What a run did to the archive, the disk and the decompiler, read off its effects.\<close>

fun archive_reads :: "effect list \<Rightarrow> string list" where
  "archive_reads [] = []"
| "archive_reads (Archive_read p # es) = p # archive_reads es"
| "archive_reads (e # es) = archive_reads es"

fun file_creates :: "effect list \<Rightarrow> string list" where
  "file_creates [] = []"
| "file_creates (File_create p # es) = p # file_creates es"
| "file_creates (e # es) = file_creates es"

fun file_writes :: "effect list \<Rightarrow> string list" where
  "file_writes [] = []"
| "file_writes (File_write p # es) = p # file_writes es"
| "file_writes (e # es) = file_writes es"

fun archive_adds :: "effect list \<Rightarrow> string list" where
  "archive_adds [] = []"
| "archive_adds (Archive_add p # es) = p # archive_adds es"
| "archive_adds (e # es) = archive_adds es"

fun archive_saves :: "effect list \<Rightarrow> string list" where
  "archive_saves [] = []"
| "archive_saves (Archive_save p # es) = p # archive_saves es"
| "archive_saves (e # es) = archive_saves es"

fun decompiler_runs :: "effect list \<Rightarrow> string list" where
  "decompiler_runs [] = []"
| "decompiler_runs (Run_decompiler p # es) = p # decompiler_runs es"
| "decompiler_runs (e # es) = decompiler_runs es"

text \<open>A file that the batch counts as failed: any state but \<^verbatim>\<open>ok\<close> and \<^verbatim>\<open>skip\<close>, or a raise.\<close>

fun counted_failed :: "decompile_outcome \<Rightarrow> bool" where
  "counted_failed (Returns state) = (state \<noteq> ''ok'' \<and> state \<noteq> ''skip'')"
| "counted_failed (Raises e) = True"

text \<open>
  The number of files under a node, links followed: a file is one, a directory or a link to
  a directory is the sum over its listing, and a directory that cannot be listed shows none.
\<close>

fun files_under :: "'a fs_node \<Rightarrow> nat"
  and files_under_list :: "(string \<times> 'a fs_node) list \<Rightarrow> nat" where
  "files_under (File x) = 1"
| "files_under (Dir items) = files_under_list items"
| "files_under (Dir_unreadable e) = 0"
| "files_under (Link items) = files_under_list items"
| "files_under_list [] = 0"
| "files_under_list ((name, node) # items) = files_under node + files_under_list items"




section \<open>Example runs\<close>

definition game_tree :: "string \<Rightarrow> decompile_outcome fs_node option" where
  "game_tree = (\<lambda>p. if p = ''game'' then
       Some (Dir [(''a.RPYC'', File (Returns ''ok'')),
                  (''sub'', Dir [(''b.rpyc'', File (Raises ''boom'')),
                                 (''c.txt'', File (Returns ''ok''))]),
                  (''d.rpymc'', File (Returns ''skip''))])
     else None)"

definition seven_entries :: "(string \<times> entry_io) list" where
  "seven_entries = [(''a'', Entry_ok), (''b'', Entry_ok), (''c'', Entry_ok), (''d'', Entry_ok),
                    (''e'', Entry_ok), (''f'', Entry_ok), (''g'', Entry_ok)]"

definition seven_env :: extract_env where
  "seven_env = \<lparr>codec_open = (\<lambda>p.
        if p = ''seven.rpa'' then Inr \<lparr>entries = seven_entries, archive_version = ''3.0''\<rparr>
        else if p = ''bad3.rpa'' then
          Inr \<lparr>entries = [(''a'', Entry_ok), (''b'', Entry_ok)]
                          @ (''c'', Write_fails ''disk full'') # [(''d'', Entry_ok)],
               archive_version = ''3.0''\<rparr>
        else if p = ''empty.rpa'' then Inr \<lparr>entries = [], archive_version = ''3.0''\<rparr>
        else Inl ''not an archive''),
     prepare_dir = (\<lambda>d. if d = ''/ro/out'' then Some ''Permission denied'' else None)\<rparr>"


definition seven_tree :: "string \<Rightarrow> decompile_outcome fs_node option" where
  "seven_tree = (\<lambda>p. if p = ''g'' then
       Some (Dir [(''a.rpyc'', File (Returns ''ok'')), (''b.rpyc'', File (Returns ''ok'')),
                  (''c.rpyc'', File (Raises ''boom'')), (''d.rpyc'', File (Returns ''skip'')),
                  (''e.rpyc'', File (Returns ''error'')), (''f.rpyc'', File (Returns ''ok'')),
                  (''g.rpyc'', File (Returns ''ok''))])
     else None)"

definition empty_dirs :: create_env where
  "empty_dirs = \<lparr>source_tree = (\<lambda>p. if p = ''src'' then Some (Dir [(''sub'', Dir [])]) else None),
                 listed_tree = (\<lambda>w p. if p = ''src'' then Some (Dir [(''sub'', Dir [])]) else None),
                 codec_new = (\<lambda>v k. None), codec_save = (\<lambda>p. None)\<rparr>"

definition partly_unreadable :: create_env where
  "partly_unreadable =
     \<lparr>source_tree = (\<lambda>p. if p = ''src'' then
          Some (Dir [(''a.txt'', File Added),
                     (''sub'', Dir [(''b.txt'', File (Open_fails ''denied''))])])
        else None),
      listed_tree = (\<lambda>w p. if p = ''src'' then
          Some (Dir [(''a.txt'', File Added),
                     (''sub'', Dir [(''b.txt'', File (Open_fails ''denied''))])])
        else None),
      codec_new = (\<lambda>v k. None), codec_save = (\<lambda>p. None)\<rparr>"

definition two_files :: create_env where
  "two_files =
     \<lparr>source_tree = (\<lambda>p. if p = ''src'' then
          Some (Dir [(''a.txt'', File Added), (''sub'', Dir [(''b.txt'', File Added)])])
        else None),
      listed_tree = (\<lambda>w p. if p = ''src'' then
          Some (Dir [(''a.txt'', File Added), (''sub'', Dir [(''b.txt'', File Added)])])
        else None),
      codec_new = (\<lambda>v k. None),
      codec_save = (\<lambda>p. if p = ''/ro/out.rpa'' then Some ''Read-only file system'' else None)\<rparr>"



section \<open>Basic facts about effects\<close>

lemma snapshots_append [simp]: "snapshots (xs @ ys) = snapshots xs @ snapshots ys"
  by (induction xs rule: snapshots.induct) simp_all

lemma archive_reads_append [simp]: "archive_reads (xs @ ys) = archive_reads xs @ archive_reads ys"
  by (induction xs rule: archive_reads.induct) simp_all

lemma file_creates_append [simp]: "file_creates (xs @ ys) = file_creates xs @ file_creates ys"
  by (induction xs rule: file_creates.induct) simp_all

lemma file_writes_append [simp]: "file_writes (xs @ ys) = file_writes xs @ file_writes ys"
  by (induction xs rule: file_writes.induct) simp_all

lemma archive_adds_append [simp]: "archive_adds (xs @ ys) = archive_adds xs @ archive_adds ys"
  by (induction xs rule: archive_adds.induct) simp_all

lemma archive_saves_append [simp]: "archive_saves (xs @ ys) = archive_saves xs @ archive_saves ys"
  by (induction xs rule: archive_saves.induct) simp_all

lemma observe_write_progress [simp]:
  "archive_reads (write_progress wr pf s) = []"
  "file_creates (write_progress wr pf s) = []"
  "file_writes (write_progress wr pf s) = []"
  "archive_adds (write_progress wr pf s) = []"
  "archive_saves (write_progress wr pf s) = []"
  by (simp_all add: write_progress_def)

lemma observe_report [simp]:
  "archive_reads (report wr pf s) = []"
  "file_creates (report wr pf s) = []"
  "file_writes (report wr pf s) = []"
  "archive_adds (report wr pf s) = []"
  "archive_saves (report wr pf s) = []"
  by (simp_all add: report_def)

lemma snapshots_write_progress [simp]:
  "snapshots (write_progress wr pf s) = (if truthy pf then [s] else [])"
  by (simp add: write_progress_def)

lemma snapshots_report [simp]:
  "snapshots (report wr pf s) = (if truthy pf then [s] else [])"
  by (simp add: report_def)

lemma str_nat_0: "str_nat 0 = ''0''"
  by code_simp

section \<open>Properties of the decompile batch\<close>

lemma decompiler_runs_append [simp]:
  "decompiler_runs (xs @ ys) = decompiler_runs xs @ decompiler_runs ys"
  by (induction xs rule: decompiler_runs.induct) simp_all

lemma decompiler_runs_write_progress [simp]: "decompiler_runs (write_progress wr pf s) = []"
  by (simp add: write_progress_def)

lemma decompiler_runs_report [simp]: "decompiler_runs (report wr pf s) = []"
  by (simp add: report_def)

lemma decompile_loop_total:
  "st_success (fst (decompile_loop wr pf n idx fs st))
     + st_skipped (fst (decompile_loop wr pf n idx fs st))
     + st_failed (fst (decompile_loop wr pf n idx fs st))
   = st_success st + st_skipped st + st_failed st + length fs"
  by (induction fs arbitrary: idx st)
     (auto simp: Let_def split_beta split: decompile_outcome.splits)

lemma decompile_loop_failed:
  "st_failed (fst (decompile_loop wr pf n idx fs st))
   = st_failed st + length (filter counted_failed (map snd fs))"
  by (induction fs arbitrary: idx st)
     (auto simp: Let_def split_beta split: decompile_outcome.splits)

lemma decompile_loop_success:
  "st_success (fst (decompile_loop wr pf n idx fs st))
   = st_success st + length (filter (\<lambda>x. x = Returns ''ok'') (map snd fs))"
  by (induction fs arbitrary: idx st)
     (auto simp: Let_def split_beta split: decompile_outcome.splits)

lemma decompile_loop_skipped:
  "st_skipped (fst (decompile_loop wr pf n idx fs st))
   = st_skipped st + length (filter (\<lambda>x. x = Returns ''skip'') (map snd fs))"
  by (induction fs arbitrary: idx st)
     (auto simp: Let_def split_beta split: decompile_outcome.splits)

lemma decompile_loop_runs:
  "decompiler_runs (snd (decompile_loop wr pf n idx fs st)) = map fst fs"
  by (induction fs arbitrary: idx st)
     (auto simp: Let_def split_beta split: decompile_outcome.splits)

lemma decompile_success_cases:
  assumes "success (fst (decompile_directory wr tree source_dir pf))"
  shows "\<exists>dir. source_dir = PyStr dir \<and> dir \<noteq> [] \<and> tree dir \<noteq> None \<and> find_rpyc tree dir \<noteq> []"
  using assms
  by (auto simp: decompile_directory_def decompile_body_def decompile_failure_def Let_def
           split: py_path.splits if_splits prod.splits)

lemma decompile_directory_run:
  assumes "dir \<noteq> []" "tree dir \<noteq> None" "find_rpyc tree dir \<noteq> []"
  shows "stats (fst (decompile_directory wr tree (PyStr dir) pf)) =
           (fst (decompile_loop wr pf (length (find_rpyc tree dir)) 0 (find_rpyc tree dir)
                   zero_stats))
             \<lparr>st_total := length (find_rpyc tree dir)\<rparr>"
    and "success (fst (decompile_directory wr tree (PyStr dir) pf))"
    and "decompiler_runs (snd (decompile_directory wr tree (PyStr dir) pf))
         = map fst (find_rpyc tree dir)"
  using assms
    decompile_loop_runs[of wr pf "length (find_rpyc tree dir)" 0 "find_rpyc tree dir" zero_stats]
  by (auto simp: decompile_directory_def decompile_body_def zero_stats_def Let_def
           split: prod.splits)

text \<open>
  C9. Whenever \<^verbatim>\<open>decompile_directory\<close> returns \<^verbatim>\<open>success=True\<close>, the argument was a string
  naming a directory, \<^verbatim>\<open>stats['total']\<close> is the number of compiled scripts that the initial
  scan found, and the three counters \<^verbatim>\<open>success\<close>, \<^verbatim>\<open>skipped\<close> and \<^verbatim>\<open>failed\<close> add up to it:
  every scanned file increments exactly one of them.
\<close>

theorem decompile_stats_add_up:
  assumes "success (fst (decompile_directory wr tree source_dir pf))"
  shows "\<exists>dir. source_dir = PyStr dir \<and>
           st_total (stats (fst (decompile_directory wr tree source_dir pf)))
             = length (find_rpyc tree dir) \<and>
           st_success (stats (fst (decompile_directory wr tree source_dir pf)))
             + st_skipped (stats (fst (decompile_directory wr tree source_dir pf)))
             + st_failed (stats (fst (decompile_directory wr tree source_dir pf)))
           = st_total (stats (fst (decompile_directory wr tree source_dir pf)))"
proof -
  from decompile_success_cases[OF assms] obtain dir where
    d: "source_dir = PyStr dir" "dir \<noteq> []" "tree dir \<noteq> None" "find_rpyc tree dir \<noteq> []"
    by blast
  show ?thesis
    using d decompile_directory_run(1)[OF d(2,3,4), of wr pf]
      decompile_loop_total[of wr pf "length (find_rpyc tree dir)" 0 "find_rpyc tree dir" zero_stats]
    by (simp add: zero_stats_def)
qed

theorem decompile_stats_add_up_witness:
  "success (fst (decompile_directory (\<lambda>s. True) game_tree (PyStr ''game'') (Some ''p.json''))) \<and>
   st_total (stats (fst (decompile_directory (\<lambda>s. True) game_tree (PyStr ''game'')
                          (Some ''p.json'')))) = 3 \<and>
   st_success (stats (fst (decompile_directory (\<lambda>s. True) game_tree (PyStr ''game'')
                            (Some ''p.json''))))
   + st_skipped (stats (fst (decompile_directory (\<lambda>s. True) game_tree (PyStr ''game'')
                              (Some ''p.json''))))
   + st_failed (stats (fst (decompile_directory (\<lambda>s. True) game_tree (PyStr ''game'')
                             (Some ''p.json'')))) = 3"
proof -
  have h: "success (fst (decompile_directory (\<lambda>s. True) game_tree (PyStr ''game'')
                           (Some ''p.json'')))"
    by code_simp
  have n: "length (find_rpyc game_tree ''game'') = 3"
    by code_simp
  show ?thesis
    using h n decompile_stats_add_up [OF h] by auto
qed

text \<open>
  C5. When the scan of an existing directory finds at least one compiled script, the batch
  runs the decompiler on every file found, in the order of the scan, whatever the earlier
  files did; each file that ends in a state other than \<^verbatim>\<open>ok\<close> and \<^verbatim>\<open>skip\<close>, or that makes
  the decompiler raise, adds one to \<^verbatim>\<open>failed\<close>; and the result is \<^verbatim>\<open>success=True\<close> with the
  aggregated counts, however many files failed.
\<close>

theorem decompile_continues_on_error:
  assumes "dir \<noteq> []" and "tree dir \<noteq> None" and "find_rpyc tree dir \<noteq> []"
  shows "success (fst (decompile_directory wr tree (PyStr dir) pf)) \<and>
         decompiler_runs (snd (decompile_directory wr tree (PyStr dir) pf))
           = map fst (find_rpyc tree dir) \<and>
         st_failed (stats (fst (decompile_directory wr tree (PyStr dir) pf)))
           = length (filter counted_failed (map snd (find_rpyc tree dir))) \<and>
         st_success (stats (fst (decompile_directory wr tree (PyStr dir) pf)))
           = length (filter (\<lambda>x. x = Returns ''ok'') (map snd (find_rpyc tree dir))) \<and>
         st_skipped (stats (fst (decompile_directory wr tree (PyStr dir) pf)))
           = length (filter (\<lambda>x. x = Returns ''skip'') (map snd (find_rpyc tree dir))) \<and>
         st_total (stats (fst (decompile_directory wr tree (PyStr dir) pf)))
           = length (find_rpyc tree dir)"
  using decompile_directory_run[OF assms, of wr pf]
  by (simp add: decompile_loop_failed decompile_loop_success decompile_loop_skipped zero_stats_def)

theorem decompile_continues_on_error_witness:
  "''game'' \<noteq> [] \<and> game_tree ''game'' \<noteq> None \<and> find_rpyc game_tree ''game'' \<noteq> [] \<and>
   success (fst (decompile_directory (\<lambda>s. True) game_tree (PyStr ''game'') None)) \<and>
   decompiler_runs (snd (decompile_directory (\<lambda>s. True) game_tree (PyStr ''game'') None))
     = [''game/a.RPYC'', ''game/d.rpymc'', ''game/sub/b.rpyc''] \<and>
   st_failed (stats (fst (decompile_directory (\<lambda>s. True) game_tree (PyStr ''game'') None))) = 1"
proof -
  have s: "find_rpyc game_tree ''game''
           = [(''game/a.RPYC'', Returns ''ok''), (''game/d.rpymc'', Returns ''skip''),
              (''game/sub/b.rpyc'', Raises ''boom'')]"
    by code_simp
  have h1: "''game'' \<noteq> []" by simp
  have h2: "game_tree ''game'' \<noteq> None" by (simp add: game_tree_def)
  have h3: "find_rpyc game_tree ''game'' \<noteq> []" by (simp add: s)
  show ?thesis
    using h1 h2 h3 decompile_continues_on_error [OF h1 h2 h3, of "\<lambda>s. True" None]
    by (simp add: s)
qed

section \<open>Properties of the extractor\<close>

text \<open>A run of the loop over entries that all extract, followed by the rest of the listing.\<close>

lemma extract_loop_ok_fst:
  "\<forall>x\<in>set oks. snd x = Entry_ok \<Longrightarrow>
   fst (extract_loop wr pf out n idx (oks @ rest) acc)
   = fst (extract_loop wr pf out n (idx + length oks) rest (acc @ map fst oks))"
  by (induction oks arbitrary: idx acc)
     (auto simp: Let_def split_beta extract_entry_def)

lemma extract_loop_ok_reads:
  "\<forall>x\<in>set oks. snd x = Entry_ok \<Longrightarrow>
   archive_reads (snd (extract_loop wr pf out n idx (oks @ rest) acc))
   = map fst oks
     @ archive_reads (snd (extract_loop wr pf out n (idx + length oks) rest (acc @ map fst oks)))"
  by (induction oks arbitrary: idx acc)
     (auto simp: Let_def split_beta extract_entry_def)

lemma extract_loop_ok_writes:
  "\<forall>x\<in>set oks. snd x = Entry_ok \<Longrightarrow>
   file_writes (snd (extract_loop wr pf out n idx (oks @ rest) acc))
   = map (\<lambda>x. path_join out (fst x)) oks
     @ file_writes (snd (extract_loop wr pf out n (idx + length oks) rest (acc @ map fst oks)))"
  by (induction oks arbitrary: idx acc)
     (auto simp: Let_def split_beta extract_entry_def)



lemma extract_loop_ok_creates:
  "\<forall>x\<in>set oks. snd x = Entry_ok \<Longrightarrow>
   file_creates (snd (extract_loop wr pf out n idx (oks @ rest) acc))
   = map (\<lambda>x. path_join out (fst x)) oks
     @ file_creates (snd (extract_loop wr pf out n (idx + length oks) rest (acc @ map fst oks)))"
  by (induction oks arbitrary: idx acc)
     (auto simp: Let_def split_beta extract_entry_def)

lemma extract_loop_fail:
  "fst (extract_entry out name io) = Inl e \<Longrightarrow>
   fst (extract_loop wr pf out n idx ((name, io) # rest) acc)
     = Inl \<lparr>success = False, message = ''Error extracting '' @ name @ '': '' @ e, files = acc\<rparr> \<and>
   archive_reads (snd (extract_loop wr pf out n idx ((name, io) # rest) acc)) = [name] \<and>
   file_writes (snd (extract_loop wr pf out n idx ((name, io) # rest) acc)) = [] \<and>
   file_creates (snd (extract_loop wr pf out n idx ((name, io) # rest) acc))
     = (case io of Write_fails x \<Rightarrow> [path_join out name] | _ \<Rightarrow> [])"
  by (cases io) (auto simp: Let_def extract_entry_def)

text \<open>
  C4, as stated, fails in one point: the payload is not the list of the entries that the run
  wrote to disk. When \<^verbatim>\<open>f.write\<close> raises on entry \<open>k\<close> (line 77), line 76 has already
  created or emptied the destination of that entry, and the handler at line 94 leaves it
  there. Below, entry \<^verbatim>\<open>c\<close> fails while it is written: \<^verbatim>\<open>files\<close> is \<^verbatim>\<open>['a', 'b']\<close> and the
  destinations on disk are those of \<^verbatim>\<open>a\<close>, \<^verbatim>\<open>b\<close> and \<^verbatim>\<open>c\<close>.
\<close>

theorem extract_fails_fast_counterexample:
  "files (fst (extract_rpa (\<lambda>s. True) seven_env ''bad3.rpa'' ''out'' (Some ''p.json'')))
     = [''a'', ''b''] \<and>
   file_creates (snd (extract_rpa (\<lambda>s. True) seven_env ''bad3.rpa'' ''out'' (Some ''p.json'')))
     = [''out/a'', ''out/b'', ''out/c''] \<and>
   file_writes (snd (extract_rpa (\<lambda>s. True) seven_env ''bad3.rpa'' ''out'' (Some ''p.json'')))
     = [''out/a'', ''out/b'']"
  by code_simp

text \<open>
  C4, amended. The archive opens, the output directory is there, the first \<open>k - 1\<close> entries
  (\<open>oks\<close>) extract and entry \<open>k\<close> (\<open>name\<close>) raises \<open>e\<close> while it is read, its directory made,
  its destination opened or its contents written. Then \<^verbatim>\<open>extract_rpa\<close> returns
  \<^verbatim>\<open>success=False\<close>, the message names the entry and the cause, \<^verbatim>\<open>files\<close> has the \<open>k - 1\<close>
  names before it, the files written completely are exactly those of \<^verbatim>\<open>files\<close> in that order,
  and the entries read from the archive are those up to entry \<open>k\<close>: nothing after it is read,
  created or written. The destinations created on disk are those of \<^verbatim>\<open>files\<close>, followed by
  the destination of entry \<open>k\<close> when it is the write of the contents that failed.
\<close>

theorem extract_fails_fast:
  assumes "codec_open env rpa = Inr ar" and "prepare_dir env out = None"
    and "entries ar = oks @ (name, io) # rest"
    and "\<forall>x\<in>set oks. snd x = Entry_ok"
    and "fst (extract_entry out name io) = Inl e"
  shows "fst (extract_rpa wr env rpa out pf)
           = \<lparr>success = False, message = ''Error extracting '' @ name @ '': '' @ e,
              files = map fst oks\<rparr> \<and>
         length (files (fst (extract_rpa wr env rpa out pf))) = length oks \<and>
         file_writes (snd (extract_rpa wr env rpa out pf))
           = map (path_join out) (files (fst (extract_rpa wr env rpa out pf))) \<and>
         file_creates (snd (extract_rpa wr env rpa out pf))
           = map (path_join out) (files (fst (extract_rpa wr env rpa out pf)))
             @ (case io of Write_fails x \<Rightarrow> [path_join out name] | _ \<Rightarrow> []) \<and>
         archive_reads (snd (extract_rpa wr env rpa out pf)) = map fst oks @ [name]"
proof -
  let ?n = "length (entries ar)"
  let ?L = "extract_loop wr pf out ?n 0 (oks @ (name, io) # rest) []"
  note at_k = extract_loop_fail[OF assms(5), of wr pf ?n "length oks" rest "map fst oks"]
  have f: "fst ?L = Inl \<lparr>success = False, message = ''Error extracting '' @ name @ '': '' @ e,
                         files = map fst oks\<rparr>"
    using extract_loop_ok_fst[OF assms(4), of wr pf out ?n 0 "(name, io) # rest" "[]"] at_k
    by simp
  have r: "archive_reads (snd ?L) = map fst oks @ [name]"
    using extract_loop_ok_reads[OF assms(4), of wr pf out ?n 0 "(name, io) # rest" "[]"] at_k
    by simp
  have w: "file_writes (snd ?L) = map (\<lambda>x. path_join out (fst x)) oks"
    using extract_loop_ok_writes[OF assms(4), of wr pf out ?n 0 "(name, io) # rest" "[]"] at_k
    by simp
  have c: "file_creates (snd ?L)
           = map (\<lambda>x. path_join out (fst x)) oks
             @ (case io of Write_fails x \<Rightarrow> [path_join out name] | _ \<Rightarrow> [])"
    using extract_loop_ok_creates[OF assms(4), of wr pf out ?n 0 "(name, io) # rest" "[]"] at_k
    by simp
  obtain res effs where L: "?L = (res, effs)" by (cases ?L)
  show ?thesis
    using f r w c L assms(1,2,3)
    by (simp add: extract_rpa_def extract_body_def Let_def comp_def)
qed

theorem extract_fails_fast_witness:
  "fst (extract_rpa (\<lambda>s. True) seven_env ''bad3.rpa'' ''out'' (Some ''p.json''))
     = \<lparr>success = False, message = ''Error extracting c: disk full'', files = [''a'', ''b'']\<rparr> \<and>
   file_writes (snd (extract_rpa (\<lambda>s. True) seven_env ''bad3.rpa'' ''out'' (Some ''p.json'')))
     = [''out/a'', ''out/b''] \<and>
   file_creates (snd (extract_rpa (\<lambda>s. True) seven_env ''bad3.rpa'' ''out'' (Some ''p.json'')))
     = [''out/a'', ''out/b'', ''out/c''] \<and>
   archive_reads (snd (extract_rpa (\<lambda>s. True) seven_env ''bad3.rpa'' ''out'' (Some ''p.json'')))
     = [''a'', ''b'', ''c'']"
proof -
  let ?ar = "\<lparr>entries = [(''a'', Entry_ok), (''b'', Entry_ok)]
                         @ (''c'', Write_fails ''disk full'') # [(''d'', Entry_ok)],
              archive_version = ''3.0''\<rparr>"
  have h1: "codec_open seven_env ''bad3.rpa'' = Inr ?ar"
    by (simp add: seven_env_def)
  have h2: "prepare_dir seven_env ''out'' = None"
    by (simp add: seven_env_def)
  have h3: "entries ?ar = [(''a'', Entry_ok), (''b'', Entry_ok)]
                          @ (''c'', Write_fails ''disk full'') # [(''d'', Entry_ok)]"
    by simp
  have h4: "\<forall>x\<in>set [(''a'', Entry_ok), (''b'', Entry_ok)]. snd x = Entry_ok"
    by simp
  have h5: "fst (extract_entry ''out'' ''c'' (Write_fails ''disk full'')) = Inl ''disk full''"
    by (simp add: extract_entry_def)
  show ?thesis
    using extract_fails_fast [OF h1 h2 h3 h4 h5, of "\<lambda>s. True" "Some ''p.json''"]
    by (simp add: path_join_def)
qed

lemma count_files_0_create:
  "count_files (source_tree cenv) src = 0 \<Longrightarrow>
   create_rpa wr cenv src outp ver key pf
   = (\<lparr>success = False, message = ''No files found in source directory'', files = []\<rparr>,
      report wr pf \<lparr>operation = Create, totalFiles = 0, processedFiles = 0, currentFile = '''',
                    status = Failed, errorMessage = ''No files found in source directory''\<rparr>)"
  by (simp add: create_rpa_def Let_def)

text \<open>
  C10, as stated, fails: an archive that opens with no entries still gives
  \<^verbatim>\<open>success=False\<close> when the output directory cannot be created, because \<^verbatim>\<open>os.makedirs\<close>
  at line 61 raises into the handler at line 133.
\<close>

theorem extract_empty_archive_counterexample:
  "codec_open seven_env ''empty.rpa'' = Inr \<lparr>entries = [], archive_version = ''3.0''\<rparr> \<and>
   fst (extract_rpa (\<lambda>s. True) seven_env ''empty.rpa'' ''/ro/out'' (Some ''p.json''))
     = \<lparr>success = False, message = ''Error: Permission denied'', files = []\<rparr>"
  by (simp add: seven_env_def extract_rpa_def extract_body_def Let_def)

text \<open>
  C10, amended. For an archive that opens with no entries and an output directory that
  exists or can be created, \<^verbatim>\<open>extract_rpa\<close> returns \<^verbatim>\<open>success=True\<close>, an empty \<^verbatim>\<open>files\<close> list
  and the message \<^verbatim>\<open>Successfully extracted 0 files\<close>; with a progress file the snapshots are
  the initial one and a completed one, both with \<^verbatim>\<open>totalFiles=0\<close> and \<^verbatim>\<open>processedFiles=0\<close>.
  \<^verbatim>\<open>create_rpa\<close> with no file to add and \<^verbatim>\<open>decompile_directory\<close> with no compiled script
  return \<^verbatim>\<open>success=False\<close>.
\<close>

theorem extract_empty_archive:
  "(codec_open env rpa = Inr ar \<and> entries ar = [] \<and> prepare_dir env out = None \<longrightarrow>
      fst (extract_rpa wr env rpa out pf)
        = \<lparr>success = True, message = ''Successfully extracted 0 files'', files = []\<rparr> \<and>
      snapshots (snd (extract_rpa wr env rpa out pf))
        = (if truthy pf
           then [\<lparr>operation = Extract, totalFiles = 0, processedFiles = 0,
                   currentFile = ''Loading archive...'', status = In_progress,
                   errorMessage = ''''\<rparr>,
                 \<lparr>operation = Extract, totalFiles = 0, processedFiles = 0,
                   currentFile = ''Complete'', status = Completed, errorMessage = ''''\<rparr>]
           else [])) \<and>
   (count_files (source_tree cenv) src = 0 \<longrightarrow>
      \<not> success (fst (create_rpa wr cenv src outp ver key pf))) \<and>
   (find_rpyc tree dir = [] \<longrightarrow>
      \<not> success (fst (decompile_directory wr tree (PyStr dir) pf)))"
  by (auto simp: extract_rpa_def extract_body_def str_nat_0 count_files_0_create Let_def
        decompile_directory_def decompile_body_def decompile_failure_def)

theorem extract_empty_archive_witness:
  "codec_open seven_env ''empty.rpa'' = Inr \<lparr>entries = [], archive_version = ''3.0''\<rparr> \<and>
   fst (extract_rpa (\<lambda>s. True) seven_env ''empty.rpa'' ''out'' (Some ''p.json''))
     = \<lparr>success = True, message = ''Successfully extracted 0 files'', files = []\<rparr> \<and>
   map status (snapshots (snd (extract_rpa (\<lambda>s. True) seven_env ''empty.rpa'' ''out''
                                 (Some ''p.json''))))
     = [In_progress, Completed] \<and>
   count_files (source_tree empty_dirs) ''src'' = 0 \<and>
   \<not> success (fst (create_rpa (\<lambda>s. True) empty_dirs ''src'' ''out.rpa'' 3 0xDEADBEEF
                     (Some ''p.json''))) \<and>
   find_rpyc seven_tree ''nowhere'' = [] \<and>
   \<not> success (fst (decompile_directory (\<lambda>s. True) seven_tree (PyStr ''nowhere'')
                     (Some ''p.json'')))"
proof -
  have o: "codec_open seven_env ''empty.rpa'' = Inr \<lparr>entries = [], archive_version = ''3.0''\<rparr>"
    by (simp add: seven_env_def)
  have e: "entries \<lparr>entries = [], archive_version = ''3.0''\<rparr> = []" by simp
  have p: "prepare_dir seven_env ''out'' = None" by (simp add: seven_env_def)
  have c: "count_files (source_tree empty_dirs) ''src'' = 0" by code_simp
  have f: "find_rpyc seven_tree ''nowhere'' = []" by code_simp
  have t: "truthy (Some ''p.json'')" by (simp add: truthy_def)
  show ?thesis
    using extract_empty_archive
      [where env = seven_env and rpa = "''empty.rpa''" and out = "''out''"
         and ar = "\<lparr>entries = [], archive_version = ''3.0''\<rparr>" and wr = "\<lambda>s. True"
         and pf = "Some ''p.json''" and cenv = empty_dirs and src = "''src''"
         and outp = "''out.rpa''" and ver = 3 and key = "0xDEADBEEF"
         and tree = seven_tree and dir = "''nowhere''"]
      o e p c f t
    by simp
qed

section \<open>The cadence of progress snapshots\<close>





section \<open>Properties of the directory walk of the archiver\<close>

text \<open>
  \<^verbatim>\<open>os.walk\<close> never counts more files than there are under the top, links followed; in a tree
  without links to directories it counts the files under readable directories.
\<close>

lemma walk_count_le:
  "sum_list (map (\<lambda>(r, fs). length fs) (os_walk root (node :: 'a fs_node))) \<le> files_under node"
  "sum_list (map (\<lambda>(r, fs). length fs) (walk_dirs root (items :: (string \<times> 'a fs_node) list)))
     + length (dir_files items)
     \<le> files_under_list items"
  by (induction root node and root items rule: os_walk_walk_dirs.induct) auto


lemma add_items_dir:
  "(\<And>x. node \<noteq> File x) \<Longrightarrow>
   add_items wr pf n dp ap ((item, node) # rest) st
   = (let r1 = add_directory wr pf n (path_join dp item) (path_join ap item) node st
      in case fst r1 of
           Inl e \<Rightarrow> (Inl e, fst (snd r1), snd (snd r1))
         | Inr u \<Rightarrow>
             (let r2 = add_items wr pf n dp ap rest (fst (snd r1))
              in (fst r2, fst (snd r2), snd (snd r1) @ snd (snd r2))))"
  by (cases node) (auto simp: Let_def split: prod.splits sum.splits)

lemma add_items_file:
  "add_items wr pf n dp ap ((item, File io) # rest) st
   = (case add_file io of
        None \<Rightarrow>
          (let st1 = st\<lparr>added_files := added_files st @ [path_join ap item],
                       file_index := file_index st + 1\<rparr>;
               r2 = add_items wr pf n dp ap rest st1
           in (fst r2, fst (snd r2),
               Archive_add (path_join ap item)
               # (if truthy pf \<and> (file_index st1 mod 5 = 0 \<or> file_index st1 = n)
                  then write_progress wr pf
                         \<lparr>operation = Create, totalFiles = n, processedFiles = file_index st1,
                          currentFile = path_join ap item, status = In_progress,
                          errorMessage = []\<rparr>
                  else [])
               @ snd (snd r2)))
      | Some e \<Rightarrow>
          (Inl (''Error adding '' @ path_join dp item @ '': '' @ e), st,
           report wr pf
             \<lparr>operation = Create, totalFiles = n, processedFiles = file_index st,
              currentFile = path_join ap item, status = Failed,
              errorMessage = ''Error adding '' @ path_join dp item @ '': '' @ e\<rparr>))"
  by (auto simp: Let_def split: prod.splits option.splits)

lemma add_items_nil [simp]: "add_items wr pf n dp ap [] st = (Inr (), st, [])"
  by simp

lemma add_walk_induct [case_names Dir Link Unreadable File Nil Cons_file Cons_dir]:
  assumes "\<And>dp ap items st. Q dp ap items st \<Longrightarrow> P dp ap (Dir items) st"
    and "\<And>dp ap items st. Q dp ap items st \<Longrightarrow> P dp ap (Link items) st"
    and "\<And>dp ap e st. P dp ap (Dir_unreadable e) st"
    and "\<And>dp ap x st. P dp ap (File x) st"
    and "\<And>dp ap st. Q dp ap [] st"
    and "\<And>dp ap item io rest st.
           (add_file io = None \<Longrightarrow>
            Q dp ap rest (st\<lparr>added_files := added_files st @ [path_join ap item],
                              file_index := file_index st + 1\<rparr>)) \<Longrightarrow>
           Q dp ap ((item, File io) # rest) st"
    and "\<And>dp ap item node rest st.
           (\<And>x. node \<noteq> File x) \<Longrightarrow>
           P (path_join dp item) (path_join ap item) node st \<Longrightarrow>
           (\<And>u. fst (add_directory wr pf n (path_join dp item) (path_join ap item) node st) = Inr u \<Longrightarrow>
            Q dp ap rest
              (fst (snd (add_directory wr pf n (path_join dp item) (path_join ap item) node st)))) \<Longrightarrow>
           Q dp ap ((item, node) # rest) st"
  shows "P dp ap node st" and "Q dp ap items st"
proof -
  have "w = wr \<longrightarrow> p = pf \<longrightarrow> m = n \<longrightarrow> P dp ap node st"
    and "w = wr \<longrightarrow> p = pf \<longrightarrow> m = n \<longrightarrow> Q dp ap items st" for w p m
  proof (induction w p m dp ap node st and w p m dp ap items st
         rule: add_directory_add_items.induct
                 [case_names Dir_node Link_node Unreadable_node File_node No_items cons_file
                    cons_dir cons_unreadable cons_link])
    case (cons_file w p m dp ap item io rest st)
    show ?case
    proof (intro impI)
      assume e: "w = wr" "p = pf" "m = n"
      show "Q dp ap ((item, File io) # rest) st"
        by (rule assms(6)) (use cons_file[OF refl refl _ refl refl] e in simp)
    qed
  next
    case (cons_dir w p m dp ap item v rest st)
    show ?case
    proof (intro impI)
      assume e: "w = wr" "p = pf" "m = n"
      show "Q dp ap ((item, Dir v) # rest) st"
      proof (rule assms(7))
        show "P (path_join dp item) (path_join ap item) (Dir v) st"
          using cons_dir(1)[OF refl refl] e by simp
        fix u
        assume "fst (add_directory wr pf n (path_join dp item) (path_join ap item) (Dir v) st) = Inr u"
        then show "Q dp ap rest
          (fst (snd (add_directory wr pf n (path_join dp item) (path_join ap item) (Dir v) st)))"
          using cons_dir(2)[OF refl refl prod.collapse _ prod.collapse] e by simp
      qed simp
    qed
  next
    case (cons_unreadable w p m dp ap item v rest st)
    show ?case
    proof (intro impI)
      assume e: "w = wr" "p = pf" "m = n"
      show "Q dp ap ((item, Dir_unreadable v) # rest) st"
      proof (rule assms(7))
        show "P (path_join dp item) (path_join ap item) (Dir_unreadable v) st"
          using cons_unreadable(1)[OF refl refl] e by simp
        fix u
        assume "fst (add_directory wr pf n (path_join dp item) (path_join ap item)
                       (Dir_unreadable v) st) = Inr u"
        then show "Q dp ap rest
          (fst (snd (add_directory wr pf n (path_join dp item) (path_join ap item)
                       (Dir_unreadable v) st)))"
          by simp
      qed simp
    qed
  next
    case (cons_link w p m dp ap item v rest st)
    show ?case
    proof (intro impI)
      assume e: "w = wr" "p = pf" "m = n"
      show "Q dp ap ((item, Link v) # rest) st"
      proof (rule assms(7))
        show "P (path_join dp item) (path_join ap item) (Link v) st"
          using cons_link(1)[OF refl refl] e by simp
        fix u
        assume "fst (add_directory wr pf n (path_join dp item) (path_join ap item) (Link v) st) = Inr u"
        then show "Q dp ap rest
          (fst (snd (add_directory wr pf n (path_join dp item) (path_join ap item) (Link v) st)))"
          using cons_link(2)[OF refl refl prod.collapse _ prod.collapse] e by simp
      qed simp
    qed
  qed (auto intro: assms)
  then show "P dp ap node st" and "Q dp ap items st"
    by blast+
qed

declare add_items.simps [simp del]

lemma add_no_save:
  "archive_saves (snd (snd (add_directory wr pf n dp ap node st))) = []"
  "archive_saves (snd (snd (add_items wr pf n dp ap items st))) = []"
proof (induction dp ap node st and dp ap items st
       rule: add_walk_induct[where wr = wr and pf = pf and n = n])
  case (Cons_file dp ap item io rest st)
  then show ?case
    by (auto simp: add_items_file Let_def split: option.splits)
next
  case (Cons_dir dp ap item node rest st)
  then show ?case
    by (auto simp: add_items_dir Let_def split: sum.splits)
qed simp_all

lemma add_adds:
  "added_files (fst (snd (add_directory wr pf n dp ap node st)))
     = added_files st @ archive_adds (snd (snd (add_directory wr pf n dp ap node st)))"
  "added_files (fst (snd (add_items wr pf n dp ap items st)))
     = added_files st @ archive_adds (snd (snd (add_items wr pf n dp ap items st)))"
proof (induction dp ap node st and dp ap items st
       rule: add_walk_induct[where wr = wr and pf = pf and n = n])
  case (Cons_file dp ap item io rest st)
  then show ?case
    by (auto simp: add_items_file Let_def split: option.splits)
next
  case (Cons_dir dp ap item node rest st)
  then show ?case
    by (auto simp: add_items_dir Let_def split: sum.splits)
qed simp_all

lemma add_index_adds:
  "file_index (fst (snd (add_directory wr pf n dp ap node st)))
     = file_index st + length (archive_adds (snd (snd (add_directory wr pf n dp ap node st))))"
  "file_index (fst (snd (add_items wr pf n dp ap items st)))
     = file_index st + length (archive_adds (snd (snd (add_items wr pf n dp ap items st))))"
proof (induction dp ap node st and dp ap items st
       rule: add_walk_induct[where wr = wr and pf = pf and n = n])
  case (Cons_file dp ap item io rest st)
  then show ?case
    by (auto simp: add_items_file Let_def split: option.splits)
next
  case (Cons_dir dp ap item node rest st)
  then show ?case
    by (auto simp: add_items_dir Let_def split: sum.splits)
qed simp_all



lemma add_index_full:
  "fst (add_directory wr pf n dp ap node st) = Inr u \<Longrightarrow>
   file_index (fst (snd (add_directory wr pf n dp ap node st))) = file_index st + files_under node"
  "fst (add_items wr pf n dp ap items st) = Inr u \<Longrightarrow>
   file_index (fst (snd (add_items wr pf n dp ap items st)))
     = file_index st + files_under_list items"
proof (induction dp ap node st and dp ap items st
       rule: add_walk_induct[where wr = wr and pf = pf and n = n])
  case (Cons_file dp ap item io rest st)
  then show ?case
    by (auto simp: add_items_file Let_def split: option.splits)
next
  case (Cons_dir dp ap item node rest st)
  then show ?case
    by (auto simp: add_items_dir Let_def split: sum.splits)
qed simp_all









section \<open>Progress of the three operations\<close>



















section \<open>The failure path of the archiver\<close>

text \<open>
  C1 says that a failed \<^verbatim>\<open>create_rpa\<close> returns the archive paths added before the failure.
  The code does not: below, \<^verbatim>\<open>a.txt\<close> is added to the archive, then \<^verbatim>\<open>sub/b.txt\<close> cannot be
  opened; the exception raised at line 258 is caught at line 285, whose result has
  \<^verbatim>\<open>files=list()\<close>. The list \<^verbatim>\<open>added_files\<close> holds \<^verbatim>\<open>a.txt\<close> at that point and is dropped;
  \<^verbatim>\<open>extract_rpa\<close> returns \<^verbatim>\<open>list(extracted_files)\<close> in the same situation (line 111). No archive
  is saved and the message reports the error, as C1 says.
\<close>

theorem create_failure_drops_added_files:
  "create_rpa (\<lambda>s. True) partly_unreadable ''src'' ''out.rpa'' 3 0xDEADBEEF None
   = (\<lparr>success = False, message = ''Error: Error adding src/sub/b.txt: denied'', files = []\<rparr>,
      [Archive_add ''a.txt''])"
  by code_simp

text \<open>
  C2 says that every run writes exactly one terminal snapshot and nothing after it. On the
  same input \<^verbatim>\<open>create_rpa\<close> writes two: the failed snapshot of line 248, then, after the
  \<^verbatim>\<open>raise\<close> of line 258, the failed snapshot of the handler at line 288.
\<close>

theorem create_failure_two_terminal_snapshots:
  "map status (snapshots (snd (create_rpa (\<lambda>s. True) partly_unreadable ''src'' ''out.rpa'' 3
                                 0xDEADBEEF (Some ''p.json''))))
   = [In_progress, Failed, Failed] \<and>
   length (filter terminal (snapshots (snd (create_rpa (\<lambda>s. True) partly_unreadable ''src''
                                              ''out.rpa'' 3 0xDEADBEEF (Some ''p.json''))))) = 2"
  by code_simp

section \<open>An archive is saved only after a complete walk\<close>

lemma count_files_zero:
  "source_tree env src = None \<or>
   (\<exists>items. source_tree env src = Some (Dir items) \<and> files_under_list items = 0) \<Longrightarrow>
   count_files (source_tree env) src = 0"
  using walk_count_le(1)[where root = src and node = "the (source_tree env src)"]
  by (auto simp: count_files_def walk_path_def)

lemma create_save_after_walk:
  assumes "archive_saves (snd (create_rpa wr env src outp ver key pf)) \<noteq> []"
  shows "\<exists>node st walk later.
           listed_tree env wr src = Some node \<and>
           (\<exists>items. node = Dir items \<or> node = Link items) \<and>
           add_directory wr pf (count_files (source_tree env) src) src [] node
             \<lparr>added_files = [], file_index = 0\<rparr> = (Inr (), st, walk) \<and>
           length (added_files st) = files_under node \<and>
           archive_adds walk = added_files st \<and>
           archive_saves walk = [] \<and>
           snd (create_rpa wr env src outp ver key pf)
             = report wr pf \<lparr>operation = Create, totalFiles = count_files (source_tree env) src,
                              processedFiles = 0, currentFile = ''Initializing archive...'',
                              status = In_progress, errorMessage = []\<rparr>
               @ walk @ Archive_save outp # later \<and>
           archive_adds later = [] \<and> archive_saves later = []"
proof -
  let ?n = "count_files (source_tree env) src"
  let ?st0 = "\<lparr>added_files = [], file_index = 0\<rparr>"
  let ?init = "report wr pf \<lparr>operation = Create, totalFiles = ?n, processedFiles = 0,
                              currentFile = ''Initializing archive...'', status = In_progress,
                              errorMessage = []\<rparr>"
  have nz: "?n \<noteq> 0"
    using assms by (auto simp: create_rpa_def Let_def split: if_splits)
  have new: "codec_new env ver key = None"
    using assms nz by (auto simp: create_rpa_def create_steps_def Let_def split: option.splits)
  obtain node where t: "listed_tree env wr src = Some node"
    using assms nz new
    by (cases "listed_tree env wr src") (auto simp: create_rpa_def create_steps_def Let_def)
  let ?W = "add_directory wr pf ?n src [] node ?st0"
  obtain w st walk where W: "?W = (w, st, walk)" by (cases ?W)
  have ns: "archive_saves walk = []"
    using add_no_save(1)[of wr pf ?n src "[]" node ?st0] W by simp
  have ad: "archive_adds walk = added_files st"
    using add_adds(1)[of wr pf ?n src "[]" node ?st0] W by simp
  have ix: "file_index st = length (archive_adds walk)"
    using add_index_adds(1)[of wr pf ?n src "[]" node ?st0] W by simp
  have ok: "w = Inr ()"
  proof (cases w)
    case (Inl e)
    have "snd (create_rpa wr env src outp ver key pf)
          = ?init
            @ walk @ report wr pf \<lparr>operation = Create, totalFiles = ?n,
                           processedFiles = file_index st, currentFile = [], status = Failed,
                           errorMessage = ''Error: '' @ e\<rparr>"
      using nz new t W Inl
      by (simp add: create_rpa_def create_steps_def Let_def del: add_directory.simps)
    then show ?thesis
      using assms ns by simp
  qed simp
  have full: "file_index st = files_under node"
    using add_index_full(1)[of wr pf ?n src "[]" node ?st0 "()"] W ok by simp
  have dir: "\<exists>items. node = Dir items \<or> node = Link items"
    using W ok by (cases node) simp_all
  have "\<exists>later. snd (create_rpa wr env src outp ver key pf)
          = ?init @ walk @ Archive_save outp # later \<and>
          archive_adds later = [] \<and> archive_saves later = []"
    using nz new t W ok
    by (cases "codec_save env outp")
       (simp_all add: create_rpa_def create_steps_def Let_def del: add_directory.simps)
  then show ?thesis
    using t W ok ns ad ix full dir by auto
qed

text \<open>
  C3. When the source path does not exist, or is a directory with no file anywhere below
  it, \<^verbatim>\<open>create_rpa\<close> returns \<^verbatim>\<open>success=False\<close> with the message
  \<^verbatim>\<open>No files found in source directory\<close>; the only thing it does is to report one failed
  snapshot with both counters at 0 (when there is a progress file), so nothing is added to
  an archive and \<^verbatim>\<open>archive.save\<close> is not called. And in every run, if \<^verbatim>\<open>archive.save\<close> is
  called at all, then the source is a directory, or a link to one, when it is walked, the
  walk \<^verbatim>\<open>add_directory(source_dir)\<close> returned without an exception after adding every file below
  the source, and the call of \<^verbatim>\<open>archive.save\<close> comes after all effects of the walk; nothing
  is added or saved afterwards.
\<close>

theorem create_without_files:
  "(source_tree env src = None \<or>
    (\<exists>items. source_tree env src = Some (Dir items) \<and> files_under_list items = 0) \<longrightarrow>
      create_rpa wr env src outp ver key pf
        = (\<lparr>success = False, message = ''No files found in source directory'', files = []\<rparr>,
           report wr pf \<lparr>operation = Create, totalFiles = 0, processedFiles = 0,
                           currentFile = [], status = Failed,
                           errorMessage = ''No files found in source directory''\<rparr>) \<and>
      snapshots (snd (create_rpa wr env src outp ver key pf))
        = (if truthy pf
           then [\<lparr>operation = Create, totalFiles = 0, processedFiles = 0, currentFile = [],
                   status = Failed, errorMessage = ''No files found in source directory''\<rparr>]
           else []) \<and>
      archive_adds (snd (create_rpa wr env src outp ver key pf)) = [] \<and>
      archive_saves (snd (create_rpa wr env src outp ver key pf)) = []) \<and>
   (archive_saves (snd (create_rpa wr env src outp ver key pf)) \<noteq> [] \<longrightarrow>
      (\<exists>node st walk later.
         listed_tree env wr src = Some node \<and>
         (\<exists>items. node = Dir items \<or> node = Link items) \<and>
         add_directory wr pf (count_files (source_tree env) src) src [] node
           \<lparr>added_files = [], file_index = 0\<rparr> = (Inr (), st, walk) \<and>
         length (added_files st) = files_under node \<and>
         archive_adds walk = added_files st \<and>
         archive_saves walk = [] \<and>
         snd (create_rpa wr env src outp ver key pf)
           = report wr pf \<lparr>operation = Create, totalFiles = count_files (source_tree env) src,
                            processedFiles = 0, currentFile = ''Initializing archive...'',
                            status = In_progress, errorMessage = []\<rparr>
             @ walk @ Archive_save outp # later \<and>
         archive_adds later = [] \<and> archive_saves later = []))"
proof (intro conjI impI)
  assume h: "source_tree env src = None \<or>
    (\<exists>items. source_tree env src = Some (Dir items) \<and> files_under_list items = 0)"
  have z: "count_files (source_tree env) src = 0"
    using count_files_zero[OF h] .
  show "create_rpa wr env src outp ver key pf
        = (\<lparr>success = False, message = ''No files found in source directory'', files = []\<rparr>,
           report wr pf \<lparr>operation = Create, totalFiles = 0, processedFiles = 0,
                           currentFile = [], status = Failed,
                           errorMessage = ''No files found in source directory''\<rparr>)"
    using z by (simp add: create_rpa_def Let_def)
  then show "snapshots (snd (create_rpa wr env src outp ver key pf))
        = (if truthy pf
           then [\<lparr>operation = Create, totalFiles = 0, processedFiles = 0, currentFile = [],
                   status = Failed, errorMessage = ''No files found in source directory''\<rparr>]
           else [])"
    and "archive_adds (snd (create_rpa wr env src outp ver key pf)) = []"
    and "archive_saves (snd (create_rpa wr env src outp ver key pf)) = []"
    by simp_all
next
  assume "archive_saves (snd (create_rpa wr env src outp ver key pf)) \<noteq> []"
  then show "\<exists>node st walk later.
         listed_tree env wr src = Some node \<and>
         (\<exists>items. node = Dir items \<or> node = Link items) \<and>
         add_directory wr pf (count_files (source_tree env) src) src [] node
           \<lparr>added_files = [], file_index = 0\<rparr> = (Inr (), st, walk) \<and>
         length (added_files st) = files_under node \<and>
         archive_adds walk = added_files st \<and>
         archive_saves walk = [] \<and>
         snd (create_rpa wr env src outp ver key pf)
           = report wr pf \<lparr>operation = Create, totalFiles = count_files (source_tree env) src,
                            processedFiles = 0, currentFile = ''Initializing archive...'',
                            status = In_progress, errorMessage = []\<rparr>
             @ walk @ Archive_save outp # later \<and>
         archive_adds later = [] \<and> archive_saves later = []"
    by (rule create_save_after_walk)
qed

theorem create_without_files_witness:
  "(source_tree empty_dirs ''src'' = None \<or>
    (\<exists>items. source_tree empty_dirs ''src'' = Some (Dir items) \<and> files_under_list items = 0)) \<and>
   fst (create_rpa (\<lambda>s. True) empty_dirs ''src'' ''out.rpa'' 3 0xDEADBEEF (Some ''p.json''))
     = \<lparr>success = False, message = ''No files found in source directory'', files = []\<rparr> \<and>
   snapshots (snd (create_rpa (\<lambda>s. True) empty_dirs ''src'' ''out.rpa'' 3 0xDEADBEEF
                     (Some ''p.json'')))
     = [\<lparr>operation = Create, totalFiles = 0, processedFiles = 0, currentFile = [],
         status = Failed, errorMessage = ''No files found in source directory''\<rparr>] \<and>
   archive_saves (snd (create_rpa (\<lambda>s. True) empty_dirs ''src'' ''out.rpa'' 3 0xDEADBEEF
                         (Some ''p.json''))) = [] \<and>
   source_tree empty_dirs ''missing'' = None \<and>
   fst (create_rpa (\<lambda>s. True) empty_dirs ''missing'' ''out.rpa'' 3 0xDEADBEEF None)
     = \<lparr>success = False, message = ''No files found in source directory'', files = []\<rparr> \<and>
   archive_saves (snd (create_rpa (\<lambda>s. True) empty_dirs ''missing'' ''out.rpa'' 3 0xDEADBEEF
                         None)) = [] \<and>
   archive_saves (snd (create_rpa (\<lambda>s. True) two_files ''src'' ''out.rpa'' 3 0xDEADBEEF
                         (Some ''p.json''))) = [''out.rpa''] \<and>
   (\<exists>node st walk later.
      listed_tree two_files (\<lambda>s. True) ''src'' = Some node \<and>
      (\<exists>items. node = Dir items \<or> node = Link items) \<and>
      add_directory (\<lambda>s. True) (Some ''p.json'') (count_files (source_tree two_files) ''src'')
        ''src'' [] node \<lparr>added_files = [], file_index = 0\<rparr> = (Inr (), st, walk) \<and>
      length (added_files st) = files_under node \<and>
      archive_adds walk = added_files st \<and>
      archive_saves walk = [] \<and>
      snd (create_rpa (\<lambda>s. True) two_files ''src'' ''out.rpa'' 3 0xDEADBEEF (Some ''p.json''))
        = report (\<lambda>s. True) (Some ''p.json'')
            \<lparr>operation = Create, totalFiles = count_files (source_tree two_files) ''src'',
             processedFiles = 0, currentFile = ''Initializing archive...'',
             status = In_progress, errorMessage = []\<rparr>
          @ walk @ Archive_save ''out.rpa'' # later \<and>
      archive_adds later = [] \<and> archive_saves later = [])"
proof -
  have t: "truthy (Some ''p.json'')" "\<not> truthy None"
    by (simp_all add: truthy_def)
  have h1: "source_tree empty_dirs ''src'' = None \<or>
    (\<exists>items. source_tree empty_dirs ''src'' = Some (Dir items) \<and> files_under_list items = 0)"
    by (simp add: empty_dirs_def)
  have h2: "source_tree empty_dirs ''missing'' = None"
    by (simp add: empty_dirs_def)
  have h3: "archive_saves (snd (create_rpa (\<lambda>s. True) two_files ''src'' ''out.rpa'' 3 0xDEADBEEF
                         (Some ''p.json''))) = [''out.rpa'']"
    by code_simp
  show ?thesis
    using create_without_files
            [where env = empty_dirs and src = "''src''" and wr = "\<lambda>s. True"
               and outp = "''out.rpa''" and ver = 3 and key = "0xDEADBEEF"
               and pf = "Some ''p.json''"]
          create_without_files
            [where env = empty_dirs and src = "''missing''" and wr = "\<lambda>s. True"
               and outp = "''out.rpa''" and ver = 3 and key = "0xDEADBEEF" and pf = None]
          create_without_files
            [where env = two_files and src = "''src''" and wr = "\<lambda>s. True"
               and outp = "''out.rpa''" and ver = 3 and key = "0xDEADBEEF"
               and pf = "Some ''p.json''"]
          t h1 h2 h3
    by simp
qed

section \<open>Faults and failing progress writes\<close>



























end
